theory Spec2Isabelle
  imports Complex_Main
begin

section \<open>SmartCompta: invoice numbering, amounts, extraction and the generate route\<close>

text \<open>
  A shallow embedding of \<^verbatim>\<open>src/lib/facture-utils.ts\<close>, \<^verbatim>\<open>src/lib/openrouter.ts\<close> and
  \<^verbatim>\<open>src/app/api/generate/route.ts\<close>.

  Conventions of the model:
  \<^item> a database table is a map from its unique key to the row; every Prisma call is a
    read or an update of that map, and a transaction is one function on the store
    (calls are sequential, never overlapping);
  \<^item> a JavaScript string is a \<open>string\<close> of ASCII characters; \<^verbatim>\<open>toUpperCase\<close> maps
    \<open>a..z\<close> to \<open>A..Z\<close> and \<^verbatim>\<open>trim\<close> removes the ASCII white space and line
    terminators (tab, LF, VT, FF, CR, space);
  \<^item> a JavaScript number is an exact rational or \<open>NaN\<close>: the binary64 rounding of
    each arithmetic operation, the infinities and the sign of zero are not modelled;
  \<^item> what the platform computes (the clock, the provider's answers, \<^verbatim>\<open>JSON.parse\<close>,
    the conversion between numbers and strings) is a parameter of the functions that
    use it.
\<close>

subsection \<open>Strings\<close>

text \<open>\<^verbatim>\<open>Number.prototype.toString\<close> on an integer: its decimal digits.\<close>

function dec_digits :: "nat \<Rightarrow> string" where
  "dec_digits n =
     (if n < 10 then [char_of (48 + n)]
      else dec_digits (n div 10) @ [char_of (48 + n mod 10)])"
  by pat_completeness auto
termination
  by (relation "measure id") auto

declare dec_digits.simps [simp del]

definition int_toString :: "int \<Rightarrow> string" where
  "int_toString i =
     (if i < 0 then CHR ''-'' # dec_digits (nat (- i)) else dec_digits (nat i))"

text \<open>\<^verbatim>\<open>s.padStart(n, c)\<close> for a one-character filler: a longer string is not cut.\<close>

definition padStart :: "nat \<Rightarrow> char \<Rightarrow> string \<Rightarrow> string" where
  "padStart n c s = replicate (n - length s) c @ s"

definition is_lower :: "char \<Rightarrow> bool" where
  "is_lower c = (97 \<le> (of_char c :: nat) \<and> (of_char c :: nat) \<le> 122)"

definition upper_char :: "char \<Rightarrow> char" where
  "upper_char c = (if is_lower c then char_of ((of_char c :: nat) - 32) else c)"

definition toUpperCase :: "string \<Rightarrow> string" where
  "toUpperCase s = map upper_char s"

definition is_space :: "char \<Rightarrow> bool" where
  "is_space c = ((of_char c :: nat) \<in> {9, 10, 11, 12, 13, 32})"

definition trim :: "string \<Rightarrow> string" where
  "trim s = rev (dropWhile is_space (rev (dropWhile is_space s)))"

subsection \<open>The sequence store and \<^verbatim>\<open>getNextFactureNumber\<close>\<close>

record sequence =
  dernierNumero :: int
  annee :: int

type_synonym sequence_table = "string \<rightharpoonup> sequence"

record facture_number =
  numeroSequentiel :: int
  prefixe :: string
  numeroComplet :: string

text \<open>
  The body of the transaction: \<^verbatim>\<open>findUnique\<close>, \<^verbatim>\<open>create\<close> when the row is absent,
  the reset when the stored year is not the current one, the increment and the final
  \<^verbatim>\<open>update\<close>. It returns the new number and the table after the transaction.
\<close>

definition sequence_tx :: "int \<Rightarrow> sequence_table \<Rightarrow> int \<times> sequence_table" where
  "sequence_tx anneeEnCours tbl =
     (let (sequence0, tbl0) =
            (case tbl ''FACTURE_SEQ'' of
               None \<Rightarrow>
                 (let created = \<lparr>dernierNumero = 0, annee = anneeEnCours\<rparr>
                  in (created, tbl(''FACTURE_SEQ'' \<mapsto> created)))
             | Some found \<Rightarrow> (found, tbl));
          (sequence1, tbl1) =
            (if annee sequence0 \<noteq> anneeEnCours then
               (let updated = sequence0\<lparr>dernierNumero := 0, annee := anneeEnCours\<rparr>
                in (updated, tbl0(''FACTURE_SEQ'' \<mapsto> updated)))
             else (sequence0, tbl0));
          nouveauNumero = dernierNumero sequence1 + 1
      in (nouveauNumero,
          tbl1(''FACTURE_SEQ'' \<mapsto> sequence1\<lparr>dernierNumero := nouveauNumero\<rparr>)))"

definition getNextFactureNumber ::
  "int \<Rightarrow> sequence_table \<Rightarrow> facture_number \<times> sequence_table" where
  "getNextFactureNumber anneeEnCours tbl =
     (let prefixe = ''FA-'' @ int_toString anneeEnCours @ ''-'';
          (result, tbl') = sequence_tx anneeEnCours tbl;
          numeroComplet = prefixe @ padStart 4 (CHR ''0'') (int_toString result)
      in (\<lparr>numeroSequentiel = result, prefixe = prefixe, numeroComplet = numeroComplet\<rparr>,
          tbl'))"

text \<open>
  A run of sequential calls: the list gives the calendar year the clock shows at each
  call; the numbers come back in the order of the calls.
\<close>

fun issue_run :: "int list \<Rightarrow> sequence_table \<Rightarrow> facture_number list \<times> sequence_table" where
  "issue_run [] tbl = ([], tbl)"
| "issue_run (y # ys) tbl =
     (let (n, tbl1) = getNextFactureNumber y tbl;
          (ns, tbl2) = issue_run ys tbl1
      in (n # ns, tbl2))"

text \<open>The number the next call of year \<open>y\<close> continues from.\<close>

definition last_issued :: "int \<Rightarrow> sequence_table \<Rightarrow> int" where
  "last_issued y tbl =
     (case tbl ''FACTURE_SEQ'' of
        None \<Rightarrow> 0
      | Some s \<Rightarrow> if annee s = y then dernierNumero s else 0)"

subsection \<open>Numbers and \<^verbatim>\<open>calculerMontants\<close>\<close>

text \<open>
  A number is an exact rational or \<open>NaN\<close>; an operation with a \<open>NaN\<close> operand is
  \<open>NaN\<close>. A division by zero, which JavaScript answers with an infinity, is \<open>NaN\<close>
  here; the only divisor in the sources is the literal 100.
\<close>

datatype number = Fin rat | NaN

fun num_add :: "number \<Rightarrow> number \<Rightarrow> number" where
  "num_add (Fin a) (Fin b) = Fin (a + b)"
| "num_add _ _ = NaN"

fun num_mul :: "number \<Rightarrow> number \<Rightarrow> number" where
  "num_mul (Fin a) (Fin b) = Fin (a * b)"
| "num_mul _ _ = NaN"

fun num_div :: "number \<Rightarrow> number \<Rightarrow> number" where
  "num_div (Fin a) (Fin b) = (if b = 0 then NaN else Fin (a / b))"
| "num_div _ _ = NaN"

text \<open>\<^verbatim>\<open>Math.round\<close>: the nearest integer, a tie going to the larger one.\<close>

fun Math_round :: "number \<Rightarrow> number" where
  "Math_round (Fin a) = Fin (of_int \<lfloor>a + 1 / 2\<rfloor>)"
| "Math_round NaN = NaN"

record montants =
  montantHT :: number
  tauxTVA :: number
  montantTVA :: number
  montantTTC :: number

definition calculerMontants :: "number \<Rightarrow> number \<Rightarrow> montants" where
  "calculerMontants ht taux =
     (let montantTVA =
            num_div (Math_round (num_mul (num_mul ht (num_div taux (Fin 100))) (Fin 100)))
              (Fin 100);
          montantTTC =
            num_div (Math_round (num_mul (num_add ht montantTVA) (Fin 100))) (Fin 100)
      in \<lparr>montantHT = num_div (Math_round (num_mul ht (Fin 100))) (Fin 100),
          tauxTVA = taux,
          montantTVA = montantTVA,
          montantTTC = montantTTC\<rparr>)"



subsection \<open>JavaScript values\<close>

datatype js_value =
    Undefined
  | Null
  | Bool bool
  | Num number
  | Str string
  | Arr "js_value list"
  | Obj "(string \<times> js_value) list"

text \<open>What a \<^verbatim>\<open>throw\<close> carries: the kind of the exception, not its message.\<close>

datatype exn = Type_error | Json_syntax_error | Fetch_failed

fun truthy :: "js_value \<Rightarrow> bool" where
  "truthy Undefined = False"
| "truthy Null = False"
| "truthy (Bool b) = b"
| "truthy (Num NaN) = False"
| "truthy (Num (Fin q)) = (q \<noteq> 0)"
| "truthy (Str s) = (s \<noteq> [])"
| "truthy (Arr xs) = True"
| "truthy (Obj kvs) = True"

text \<open>\<^verbatim>\<open>a || b\<close>\<close>

definition js_or :: "js_value \<Rightarrow> js_value \<Rightarrow> js_value" where
  "js_or a b = (if truthy a then a else b)"

definition nullish :: "js_value \<Rightarrow> bool" where
  "nullish v = (v = Undefined \<or> v = Null)"

text \<open>
  \<^verbatim>\<open>v.k\<close> for a key that is no built-in property: a \<^verbatim>\<open>TypeError\<close> on \<^verbatim>\<open>undefined\<close> and
  \<^verbatim>\<open>null\<close>, the own property of an object (the first entry of that key), and
  \<^verbatim>\<open>undefined\<close> on every other value.
\<close>

fun get_prop :: "js_value \<Rightarrow> string \<Rightarrow> exn + js_value" where
  "get_prop Undefined k = Inl Type_error"
| "get_prop Null k = Inl Type_error"
| "get_prop (Obj kvs) k = Inr (case map_of kvs k of None \<Rightarrow> Undefined | Some v \<Rightarrow> v)"
| "get_prop v k = Inr Undefined"

text \<open>\<^verbatim>\<open>v?.k\<close> and \<^verbatim>\<open>v?.[0]\<close>\<close>

definition opt_prop :: "js_value \<Rightarrow> string \<Rightarrow> js_value" where
  "opt_prop v k = (case get_prop v k of Inl e \<Rightarrow> Undefined | Inr x \<Rightarrow> x)"

fun opt_index0 :: "js_value \<Rightarrow> js_value" where
  "opt_index0 (Arr xs) = (case xs of [] \<Rightarrow> Undefined | x # rest \<Rightarrow> x)"
| "opt_index0 (Str s) = (case s of [] \<Rightarrow> Undefined | c # rest \<Rightarrow> Str [c])"
| "opt_index0 (Obj kvs) = (case map_of kvs ''0'' of None \<Rightarrow> Undefined | Some v \<Rightarrow> v)"
| "opt_index0 v = Undefined"

fun join_comma :: "(exn + string) list \<Rightarrow> exn + string" where
  "join_comma [] = Inr []"
| "join_comma (Inl e # rest) = Inl e"
| "join_comma [Inr s] = Inr s"
| "join_comma (Inr s # rest) =
     (case join_comma rest of Inl e \<Rightarrow> Inl e | Inr t \<Rightarrow> Inr (s @ CHR '','' # t))"

text \<open>
  \<^verbatim>\<open>String(v)\<close> and the conversion inside a template literal. An object converts
  through \<^verbatim>\<open>Object.prototype.toString\<close>; when it has an own key \<^verbatim>\<open>toString\<close> (a value,
  never a function, in what \<^verbatim>\<open>JSON.parse\<close> returns) the conversion throws. An array
  joins its elements, \<^verbatim>\<open>null\<close> and \<^verbatim>\<open>undefined\<close> as the empty string. The first
  argument is the platform's conversion of a number.
\<close>

fun to_String :: "(number \<Rightarrow> string) \<Rightarrow> js_value \<Rightarrow> exn + string" where
  "to_String ns Undefined = Inr ''undefined''"
| "to_String ns Null = Inr ''null''"
| "to_String ns (Bool b) = Inr (if b then ''true'' else ''false'')"
| "to_String ns (Num n) = Inr (ns n)"
| "to_String ns (Str s) = Inr s"
| "to_String ns (Arr xs) =
     join_comma (map (\<lambda>x. if x = Undefined \<or> x = Null then Inr [] else to_String ns x) xs)"
| "to_String ns (Obj kvs) =
     (if ''toString'' \<in> fst ` set kvs then Inl Type_error else Inr ''[object Object]'')"

text \<open>
  \<^verbatim>\<open>Number(v)\<close>; the second argument is the platform's reading of a string as a number.
\<close>

fun to_Number :: "(number \<Rightarrow> string) \<Rightarrow> (string \<Rightarrow> number) \<Rightarrow> js_value \<Rightarrow> exn + number" where
  "to_Number ns sn Undefined = Inr NaN"
| "to_Number ns sn Null = Inr (Fin 0)"
| "to_Number ns sn (Bool b) = Inr (Fin (if b then 1 else 0))"
| "to_Number ns sn (Num n) = Inr n"
| "to_Number ns sn (Str s) = Inr (sn s)"
| "to_Number ns sn v = (case to_String ns v of Inl e \<Rightarrow> Inl e | Inr s \<Rightarrow> Inr (sn s))"

subsection \<open>The platform\<close>

type_synonym blob = string

text \<open>
  The four requests the sources send: the transcription request of
  \<^verbatim>\<open>transcrireAudio\<close> (JSON body, the audio in base64), the two of the route (JSON body
  with a data URL, then multipart form data) and the chat completion of
  \<^verbatim>\<open>extraireInfosFacture\<close>. Each carries the API key and its payload.
\<close>

datatype fetch_request =
    Transcriptions_base64 string blob
  | Transcriptions_data_url string blob
  | Transcriptions_form_data string blob
  | Chat_completions string string

text \<open>\<^verbatim>\<open>fetch\<close> rejects, or resolves to a response: its \<^verbatim>\<open>ok\<close> flag and its body.\<close>

datatype fetch_outcome = Fetch_rejected | Fetch_response bool string

record lien_args =
  montantTTC :: number
  numeroFacture :: string
  raisonSociale :: string
  prestation :: js_value

record lien_result =
  success :: bool
  url :: "string option"
  paymentLinkId :: "string option"

text \<open>
  What the sources take from their platform: the environment variables, the clock, the
  provider (its answer may depend on the requests sent before), \<^verbatim>\<open>JSON.parse\<close>
  (\<open>None\<close> when it throws), the conversions between numbers and strings, and the
  payment-link adapter \<^verbatim>\<open>creerLienPaiement\<close> of \<^verbatim>\<open>lib/stripe\<close>, which is not among the
  sources.
\<close>

record platform =
  OPENROUTER_API_KEY :: "string option"
  STRIPE_SECRET_KEY :: "string option"
  getFullYear :: int
  provider :: "fetch_request list \<Rightarrow> fetch_request \<Rightarrow> fetch_outcome"
  JSON_parse :: "string \<Rightarrow> js_value option"
  Number_toString :: "number \<Rightarrow> string"
  StringToNumber :: "string \<Rightarrow> number"
  creerLienPaiement :: "lien_args \<Rightarrow> lien_result"

text \<open>A call of \<^verbatim>\<open>fetch\<close>: the provider answers and the request joins the log.\<close>

definition fetch ::
  "platform \<Rightarrow> fetch_request \<Rightarrow> fetch_request list \<Rightarrow> fetch_outcome \<times> fetch_request list" where
  "fetch p req sent = (provider p sent req, sent @ [req])"

subsection \<open>\<^verbatim>\<open>lib/openrouter.ts\<close>\<close>

datatype failure =
    Cle_API_non_configuree
  | Erreur_transcription string
  | Erreur_extraction string
  | Format_de_reponse_invalide
  | Erreur exn

record TranscriptionResult =
  text' :: js_value
  success :: bool
  error :: "failure option"

record ExtractionResult =
  numDossier :: string
  montantHT :: number
  prestation :: string
  success :: bool
  error :: "failure option"
  rawResponse :: "string option"



text \<open>
  \<^verbatim>\<open>content.match(/\{[\s\S]*\}/)\<close>: the match starts at the first \<open>{\<close> and, the star
  being greedy, ends at the last \<open>}\<close> of the text; there is none when no \<open>}\<close> follows
  the first \<open>{\<close>.
\<close>

definition json_match :: "string \<Rightarrow> string option" where
  "json_match content =
     (case dropWhile (\<lambda>c. c \<noteq> CHR ''{'') content of
        [] \<Rightarrow> None
      | brace # rest \<Rightarrow>
          if CHR ''}'' \<in> set rest
          then Some (brace # rev (dropWhile (\<lambda>c. c \<noteq> CHR ''}'') (rev rest)))
          else None)"

definition extraction_failed :: "failure \<Rightarrow> string option \<Rightarrow> ExtractionResult" where
  "extraction_failed e raw =
     \<lparr>numDossier = [], montantHT = Fin 0, prestation = [], success = False,
      error = Some e, rawResponse = raw\<rparr>"

text \<open>\<^verbatim>\<open>data.choices?.[0]?.message?.content || ''\<close>\<close>

definition reply_content :: "js_value \<Rightarrow> exn + js_value" where
  "reply_content data =
     (case get_prop data ''choices'' of
        Inl e \<Rightarrow> Inl e
      | Inr choices \<Rightarrow>
          Inr (js_or
                (opt_prop (opt_prop (if nullish choices then Undefined else opt_index0 choices)
                   ''message'') ''content'')
                (Str [])))"

text \<open>
  The statements of the \<^verbatim>\<open>try\<close> block from the match to the \<^verbatim>\<open>return\<close>; \<open>Inl\<close> is an
  exception, on its way to the \<^verbatim>\<open>catch\<close>. A \<^verbatim>\<open>content\<close> that is no string has no
  method \<^verbatim>\<open>match\<close>.
\<close>

definition parse_reply :: "platform \<Rightarrow> js_value \<Rightarrow> exn + ExtractionResult" where
  "parse_reply p content =
     (case content of
        Str reply \<Rightarrow>
          (case json_match reply of
             None \<Rightarrow> Inr (extraction_failed Format_de_reponse_invalide (Some reply))
           | Some jsonMatch \<Rightarrow>
               (case JSON_parse p jsonMatch of
                  None \<Rightarrow> Inl Json_syntax_error
                | Some parsed \<Rightarrow>
                    (case get_prop parsed ''numDossier'' of
                       Inl e \<Rightarrow> Inl e
                     | Inr nd \<Rightarrow>
                    (case to_String (Number_toString p) (js_or nd (Str [])) of
                       Inl e \<Rightarrow> Inl e
                     | Inr nd_string \<Rightarrow>
                    (case to_Number (Number_toString p) (StringToNumber p)
                            (opt_prop parsed ''montantHT'') of
                       Inl e \<Rightarrow> Inl e
                     | Inr ht \<Rightarrow>
                    (case to_String (Number_toString p)
                            (js_or (opt_prop parsed ''prestation'') (Str [])) of
                       Inl e \<Rightarrow> Inl e
                     | Inr pr_string \<Rightarrow>
                         Inr \<lparr>numDossier = trim (toUpperCase nd_string),
                              montantHT = (if truthy (Num ht) then ht else Fin 0),
                              prestation = trim pr_string,
                              success = True,
                              error = None,
                              rawResponse = Some reply\<rparr>))))))
      | other \<Rightarrow> Inl Type_error)"

definition extraireInfosFacture ::
  "platform \<Rightarrow> js_value \<Rightarrow> fetch_request list \<Rightarrow> ExtractionResult \<times> fetch_request list" where
  "extraireInfosFacture p transcription sent =
     (case OPENROUTER_API_KEY p of
        None \<Rightarrow> (extraction_failed Cle_API_non_configuree None, sent)
      | Some apiKey \<Rightarrow>
          if apiKey = [] then (extraction_failed Cle_API_non_configuree None, sent)
          else
            (case to_String (Number_toString p) transcription of
               Inl e \<Rightarrow> (extraction_failed (Erreur e) None, sent)
             | Inr spoken \<Rightarrow>
                 (case fetch p (Chat_completions apiKey spoken) sent of
                    (Fetch_rejected, sent') \<Rightarrow> (extraction_failed (Erreur Fetch_failed) None, sent')
                  | (Fetch_response ok body, sent') \<Rightarrow>
                      if \<not> ok then (extraction_failed (Erreur_extraction body) None, sent')
                      else
                        (case JSON_parse p body of
                           None \<Rightarrow> (extraction_failed (Erreur Json_syntax_error) None, sent')
                         | Some data \<Rightarrow>
                             (case reply_content data of
                                Inl e \<Rightarrow> (extraction_failed (Erreur e) None, sent')
                              | Inr content \<Rightarrow>
                                  (case parse_reply p content of
                                     Inl e \<Rightarrow> (extraction_failed (Erreur e) None, sent')
                                   | Inr result \<Rightarrow> (result, sent')))))))"

subsection \<open>The store and \<^verbatim>\<open>app/api/generate/route.ts\<close>\<close>

record client =
  id' :: string
  numDossier :: string
  raisonSociale :: string
  adresse :: "string option"
  siret :: "string option"
  domaineActivite :: "string option"

text \<open>
  An invoice row: the columns the route writes, grouped as the values they come from
  (the number, the amounts), and the client the \<^verbatim>\<open>include\<close> adds. The columns the
  database fills by itself are left out.
\<close>

record facture =
  numero :: facture_number
  prestation :: js_value
  montants :: montants
  stripePaymentLink :: "string option"
  stripePaymentId :: "string option"
  clientId :: string
  client :: client

text \<open>
  The state a request can change: the three tables (clients by their unique
  \<^verbatim>\<open>numDossier\<close>), the requests sent to the provider and the calls of the payment-link
  adapter.
\<close>

record world =
  clients :: "string \<rightharpoonup> client"
  sequences :: sequence_table
  factures :: "facture list"
  fetched :: "fetch_request list"
  liens :: "lien_args list"

datatype error_text =
    Fichier_audio_requis
  | Transcription_requise
  | Donnees_incompletes
  | Dossier_non_trouve js_value
  | Action_non_reconnue
  | Exception exn

text \<open>The JSON bodies of the responses, one constructor for each shape.\<close>

datatype response_body =
    Error_only error_text
  | Demo_mode
  | Whisper_failed string
  | Transcribed js_value
  | Extracted bool ExtractionResult bool "client option" "failure option"
  | Created facture

type_synonym response = "nat \<times> response_body"

text \<open>
  A request: multipart form data with its \<^verbatim>\<open>audio\<close> field, if any, or a body that
  \<^verbatim>\<open>request.json()\<close> parses (\<open>None\<close> when it throws).
\<close>

datatype request = Multipart "blob option" | Json "js_value option"

definition env_set :: "string option \<Rightarrow> bool" where
  "env_set v = (case v of None \<Rightarrow> False | Some s \<Rightarrow> s \<noteq> [])"

text \<open>\<^verbatim>\<open>x || null\<close> on an optional string\<close>

definition or_null :: "string option \<Rightarrow> string option" where
  "or_null v = (case v of None \<Rightarrow> None | Some s \<Rightarrow> if s = [] then None else Some s)"

text \<open>\<^verbatim>\<open>whisperData.text || ''\<close> of a response body, or the exception on the way.\<close>

definition whisper_text :: "platform \<Rightarrow> string \<Rightarrow> exn + response" where
  "whisper_text p body =
     (case JSON_parse p body of
        None \<Rightarrow> Inl Json_syntax_error
      | Some whisperData \<Rightarrow>
          (case get_prop whisperData ''text'' of
             Inl e \<Rightarrow> Inl e
           | Inr t \<Rightarrow> Inr (200, Transcribed (js_or t (Str [])))))"

definition transcription_branch ::
  "platform \<Rightarrow> blob option \<Rightarrow> world \<Rightarrow> (exn + response) \<times> world" where
  "transcription_branch p audio w =
     (case audio of
        None \<Rightarrow> (Inr (400, Error_only Fichier_audio_requis), w)
      | Some blob \<Rightarrow>
          (case OPENROUTER_API_KEY p of
             None \<Rightarrow> (Inr (200, Demo_mode), w)
           | Some apiKey \<Rightarrow>
               if apiKey = [] then (Inr (200, Demo_mode), w)
               else
                 (case fetch p (Transcriptions_data_url apiKey blob) (fetched w) of
                    (Fetch_rejected, sent1) \<Rightarrow> (Inl Fetch_failed, w\<lparr>fetched := sent1\<rparr>)
                  | (Fetch_response ok body, sent1) \<Rightarrow>
                      if \<not> ok then
                        (case fetch p (Transcriptions_form_data apiKey blob) sent1 of
                           (Fetch_rejected, sent2) \<Rightarrow> (Inl Fetch_failed, w\<lparr>fetched := sent2\<rparr>)
                         | (Fetch_response ok2 body2, sent2) \<Rightarrow>
                             if \<not> ok2
                             then (Inr (500, Whisper_failed body2), w\<lparr>fetched := sent2\<rparr>)
                             else (whisper_text p body2, w\<lparr>fetched := sent2\<rparr>))
                      else (whisper_text p body, w\<lparr>fetched := sent1\<rparr>))))"

definition extract_action ::
  "platform \<Rightarrow> js_value \<Rightarrow> world \<Rightarrow> (exn + response) \<times> world" where
  "extract_action p body w =
     (let transcription = opt_prop body ''transcription'' in
      if \<not> truthy transcription then (Inr (400, Error_only Transcription_requise), w)
      else
        (case extraireInfosFacture p transcription (fetched w) of
           (extraction, sent) \<Rightarrow>
             if ExtractionResult.success extraction
                \<and> ExtractionResult.numDossier extraction \<noteq> []
             then
               (let client = clients w (ExtractionResult.numDossier extraction)
                in (Inr (200, Extracted True extraction (client \<noteq> None) client None),
                    w\<lparr>fetched := sent\<rparr>))
             else
               (Inr (200, Extracted (ExtractionResult.success extraction) extraction False None
                            (ExtractionResult.error extraction)),
                w\<lparr>fetched := sent\<rparr>)))"

definition create_action ::
  "platform \<Rightarrow> js_value \<Rightarrow> world \<Rightarrow> (exn + response) \<times> world" where
  "create_action p body w =
     (let numDossier = opt_prop body ''numDossier'';
          montantHT = opt_prop body ''montantHT'';
          prestation = opt_prop body ''prestation'';
          genererStripe =
            (case opt_prop body ''genererStripe'' of Undefined \<Rightarrow> Bool True | given \<Rightarrow> given)
      in
      if \<not> truthy numDossier \<or> \<not> truthy montantHT \<or> \<not> truthy prestation
      then (Inr (400, Error_only Donnees_incompletes), w)
      else
        (case numDossier of
           Str s \<Rightarrow>
             (case clients w (trim (toUpperCase s)) of
                None \<Rightarrow> (Inr (404, Error_only (Dossier_non_trouve numDossier)), w)
              | Some found \<Rightarrow>
                  (case to_Number (Number_toString p) (StringToNumber p) montantHT of
                     Inl e \<Rightarrow> (Inl e, w)
                   | Inr ht \<Rightarrow>
                       (let montants = calculerMontants ht (Fin 20);
                            (numero, sequences') =
                              getNextFactureNumber (getFullYear p) (sequences w);
                            args = \<lparr>lien_args.montantTTC = montants.montantTTC montants,
                                    numeroFacture = numeroComplet numero,
                                    lien_args.raisonSociale = client.raisonSociale found,
                                    lien_args.prestation = prestation\<rparr>;
                            called = (truthy genererStripe \<and> env_set (STRIPE_SECRET_KEY p));
                            stripeResult = creerLienPaiement p args;
                            linked = (called \<and> lien_result.success stripeResult);
                            facture =
                              \<lparr>numero = numero,
                               facture.prestation = prestation,
                               montants = montants,
                               stripePaymentLink =
                                 (if linked then or_null (url stripeResult) else None),
                               stripePaymentId =
                                 (if linked then or_null (paymentLinkId stripeResult) else None),
                               clientId = id' found,
                               client = found\<rparr>
                        in (Inr (200, Created facture),
                            w\<lparr>sequences := sequences',
                              factures := factures w @ [facture],
                              liens := (if called then liens w @ [args] else liens w)\<rparr>))))
         | other \<Rightarrow> (Inl Type_error, w)))"

text \<open>
  The handler inside its \<^verbatim>\<open>try\<close>, and \<^verbatim>\<open>POST\<close> with the \<^verbatim>\<open>catch\<close> that answers 500.
\<close>

definition handler :: "platform \<Rightarrow> request \<Rightarrow> world \<Rightarrow> (exn + response) \<times> world" where
  "handler p req w =
     (case req of
        Multipart audio \<Rightarrow> transcription_branch p audio w
      | Json None \<Rightarrow> (Inl Json_syntax_error, w)
      | Json (Some body) \<Rightarrow>
          (case get_prop body ''action'' of
             Inl e \<Rightarrow> (Inl e, w)
           | Inr action \<Rightarrow>
               if action = Str ''extract'' then extract_action p body w
               else if action = Str ''create'' then create_action p body w
               else (Inr (400, Error_only Action_non_reconnue), w)))"

definition POST :: "platform \<Rightarrow> request \<Rightarrow> world \<Rightarrow> response \<times> world" where
  "POST p req w =
     (case handler p req w of
        (Inl e, w') \<Rightarrow> ((500, Error_only (Exception e)), w')
      | (Inr response, w') \<Rightarrow> (response, w'))"

subsection \<open>A platform and a store for the worked examples\<close>

text \<open>
  The body of a chat completion whose message has the given content, as the provider
  writes it: the content is a JSON string, its double quotes escaped.
\<close>

definition json_quote :: "string \<Rightarrow> string" where
  \<open>json_quote s =
     ''"'' @ concat (map (\<lambda>c. if c = CHR ''"'' then [CHR 0x5C, c] else [c]) s) @ ''"''\<close>

definition completion_body :: "string \<Rightarrow> string" where
  \<open>completion_body content =
     ''{"choices":[{"message":{"content":'' @ json_quote content @ ''}}]}''\<close>

definition completion :: "string \<Rightarrow> js_value" where
  "completion content =
     Obj [(''choices'', Arr [Obj [(''message'', Obj [(''content'', Str content)])]])]"

definition fields_reply :: string where
  \<open>fields_reply = ''{"numDossier":" am0028 ","montantHT":500,"prestation":"Bilan annuel "}''\<close>

text \<open>
  \<^verbatim>\<open>JSON.parse\<close> on the texts of the examples; every other text is taken as one it
  rejects.
\<close>

definition example_parse :: "string \<Rightarrow> js_value option" where
  \<open>example_parse s =
     (if s = ''{"text":"bonjour"}'' then Some (Obj [(''text'', Str ''bonjour'')])
      else if s = ''{}'' then Some (Obj [])
      else if s = fields_reply then
        Some (Obj [(''numDossier'', Str '' am0028 ''), (''montantHT'', Num (Fin 500)),
                   (''prestation'', Str ''Bilan annuel '')])
      else
        (case find (\<lambda>content. s = completion_body content)
                [''Voici: {}'', ''{a preciser}'', ''Je ne sais pas'', fields_reply] of
           None \<Rightarrow> None
         | Some content \<Rightarrow> Some (completion content)))\<close>

text \<open>
  A provider that refuses a transcription sent as JSON and accepts the multipart form,
  and answers a chat completion by the transcript it is sent.
\<close>

fun example_provider :: "fetch_request list \<Rightarrow> fetch_request \<Rightarrow> fetch_outcome" where
  \<open>example_provider sent (Transcriptions_base64 k audio) =
     Fetch_response False ''unsupported media''\<close>
| \<open>example_provider sent (Transcriptions_data_url k audio) =
     Fetch_response False ''unsupported media''\<close>
| \<open>example_provider sent (Transcriptions_form_data k audio) =
     Fetch_response True ''{"text":"bonjour"}''\<close>
| \<open>example_provider sent (Chat_completions k spoken) =
     (if spoken = ''euh'' then Fetch_response True (completion_body ''Voici: {}'')
      else if spoken = ''flou'' then Fetch_response True (completion_body ''{a preciser}'')
      else if spoken = ''quoi'' then Fetch_response True (completion_body ''Je ne sais pas'')
      else if spoken = ''facture'' then Fetch_response True (completion_body fields_reply)
      else Fetch_response False ''rate limited'')\<close>

definition example_platform :: platform where
  "example_platform =
     \<lparr>OPENROUTER_API_KEY = Some ''sk-or'',
      STRIPE_SECRET_KEY = Some ''sk_test'',
      getFullYear = 2026,
      provider = example_provider,
      JSON_parse = example_parse,
      Number_toString = (\<lambda>n. ''0''),
      StringToNumber = (\<lambda>s. NaN),
      creerLienPaiement =
        (\<lambda>args. \<lparr>lien_result.success = False, url = None, paymentLinkId = None\<rparr>)\<rparr>"

definition dupont :: client where
  "dupont =
     \<lparr>id' = ''c1'', client.numDossier = ''AM0028'', raisonSociale = ''Dupont SARL'',
      adresse = None, siret = None, domaineActivite = None\<rparr>"

definition example_world :: world where
  "example_world =
     \<lparr>clients = [''AM0028'' \<mapsto> dupont], sequences = Map.empty, factures = [],
      fetched = [], liens = []\<rparr>"

definition create_body :: "js_value \<Rightarrow> js_value \<Rightarrow> js_value \<Rightarrow> js_value" where
  "create_body nd ht pr =
     Obj [(''action'', Str ''create''), (''numDossier'', nd), (''montantHT'', ht),
          (''prestation'', pr)]"

text \<open>A directory whose only client was stored with an empty \<^verbatim>\<open>numDossier\<close>.\<close>

definition sans_dossier :: client where
  "sans_dossier =
     \<lparr>id' = ''c0'', client.numDossier = [], raisonSociale = ''Inconnu'',
      adresse = None, siret = None, domaineActivite = None\<rparr>"

definition blank_world :: world where
  "blank_world =
     \<lparr>clients = [[] \<mapsto> sans_dossier], sequences = Map.empty, factures = [],
      fetched = [], liens = []\<rparr>"

subsection \<open>What a call of the extraction reads\<close>

text \<open>
  The reply of the language model as \<^verbatim>\<open>extraireInfosFacture\<close> reads it, when the call
  gets that far: the key is configured, the provider answers the request with a
  success response, the body parses and \<^verbatim>\<open>content\<close> is read from it without an
  exception.
\<close>

definition model_reply :: "platform \<Rightarrow> js_value \<Rightarrow> fetch_request list \<Rightarrow> js_value option" where
  "model_reply p transcription sent =
     (case OPENROUTER_API_KEY p of
        None \<Rightarrow> None
      | Some apiKey \<Rightarrow>
          if apiKey = [] then None
          else
            (case to_String (Number_toString p) transcription of
               Inl e \<Rightarrow> None
             | Inr spoken \<Rightarrow>
                 (case provider p sent (Chat_completions apiKey spoken) of
                    Fetch_rejected \<Rightarrow> None
                  | Fetch_response ok body \<Rightarrow>
                      if \<not> ok then None
                      else
                        (case JSON_parse p body of
                           None \<Rightarrow> None
                         | Some data \<Rightarrow>
                             (case reply_content data of
                                Inl e \<Rightarrow> None
                              | Inr content \<Rightarrow> Some content)))))"

text \<open>An extract request with the given \<^verbatim>\<open>transcription\<close>.\<close>

definition extract_body :: "js_value \<Rightarrow> js_value" where
  "extract_body transcription =
     Obj [(''action'', Str ''extract''), (''transcription'', transcription)]"

subsection \<open>Properties of the numbering\<close>

lemma sequence_tx_result: "fst (sequence_tx y tbl) = last_issued y tbl + 1"
  by (simp add: sequence_tx_def last_issued_def Let_def split: option.splits)

lemma sequence_tx_row:
  "snd (sequence_tx y tbl) ''FACTURE_SEQ'' =
     Some \<lparr>dernierNumero = last_issued y tbl + 1, annee = y\<rparr>"
  by (simp add: sequence_tx_def last_issued_def Let_def split: option.splits)

lemma getNext_numero:
  "numeroSequentiel (fst (getNextFactureNumber y tbl)) = last_issued y tbl + 1"
  using sequence_tx_result [of y tbl]
  by (cases "sequence_tx y tbl") (simp add: getNextFactureNumber_def Let_def)

lemma getNext_prefixe:
  "prefixe (fst (getNextFactureNumber y tbl)) = ''FA-'' @ int_toString y @ ''-''"
  by (simp add: getNextFactureNumber_def Let_def split: prod.splits)

lemma getNext_last_issued:
  "last_issued y (snd (getNextFactureNumber y tbl)) = last_issued y tbl + 1"
  using sequence_tx_row [of y tbl]
  by (cases "sequence_tx y tbl") (simp add: getNextFactureNumber_def Let_def last_issued_def)

lemma issue_run_same_year:
  "map numeroSequentiel (fst (issue_run (replicate n y) tbl)) =
     map (\<lambda>k. last_issued y tbl + 1 + int k) [0..<n]"
proof (induction n arbitrary: tbl)
  case 0
  show ?case by simp
next
  case (Suc n)
  have step: "map numeroSequentiel (fst (issue_run (replicate (Suc n) y) tbl)) =
      numeroSequentiel (fst (getNextFactureNumber y tbl)) #
      map numeroSequentiel (fst (issue_run (replicate n y) (snd (getNextFactureNumber y tbl))))"
    by (simp add: Let_def split: prod.splits)
  have shift: "map (\<lambda>k. last_issued y tbl + 1 + int k) [0..<Suc n] =
      (last_issued y tbl + 1) # map (\<lambda>k. last_issued y tbl + 1 + 1 + int k) [0..<n]"
    by (simp add: upt_conv_Cons map_Suc_upt [symmetric] del: upt_Suc)
  show ?case
    unfolding step shift Suc.IH getNext_numero getNext_last_issued by simp
qed

lemma strict_sorted_imp_distinct: "sorted_wrt (<) (xs :: int list) \<Longrightarrow> distinct xs"
  by (induction xs) auto

lemma sorted_wrt_consecutive: "sorted_wrt (<) (map (\<lambda>k. (a::int) + int k) [0..<n])"
  by (simp add: sorted_wrt_map sorted_wrt_iff_nth_less)

text \<open>
  C1. Sequential calls of \<^verbatim>\<open>getNextFactureNumber\<close> within one calendar year return
  strictly increasing sequential numbers without repeats; on an empty store the run is
  \<open>1, 2, ..., n\<close>, so the first call returns 1; and when the stored year of the counter
  row differs from the current year, the call resets the counter: it returns 1 under the
  prefix of the new year and stores the new year, and the run of that year is again
  \<open>1, 2, ..., n\<close>.
\<close>

theorem C1_numbering:
  "sorted_wrt (<) (map numeroSequentiel (fst (issue_run (replicate n y) tbl)))
   \<and> distinct (map numeroSequentiel (fst (issue_run (replicate n y) tbl)))
   \<and> map numeroSequentiel (fst (issue_run (replicate n y) Map.empty)) = map int [1..<Suc n]
   \<and> (\<forall>s. tbl ''FACTURE_SEQ'' = Some s \<and> annee s \<noteq> y \<longrightarrow>
         numeroSequentiel (fst (getNextFactureNumber y tbl)) = 1
       \<and> map numeroSequentiel (fst (issue_run (replicate n y) tbl)) = map int [1..<Suc n]
       \<and> prefixe (fst (getNextFactureNumber y tbl)) = ''FA-'' @ int_toString y @ ''-''
       \<and> snd (getNextFactureNumber y tbl) ''FACTURE_SEQ'' = Some \<lparr>dernierNumero = 1, annee = y\<rparr>)"
proof (intro conjI allI impI)
  show inc: "sorted_wrt (<) (map numeroSequentiel (fst (issue_run (replicate n y) tbl)))"
    unfolding issue_run_same_year by (rule sorted_wrt_consecutive)
  show "distinct (map numeroSequentiel (fst (issue_run (replicate n y) tbl)))"
    using inc by (rule strict_sorted_imp_distinct)
next
  have "map numeroSequentiel (fst (issue_run (replicate n y) Map.empty)) =
      map (\<lambda>k. 1 + int k) [0..<n]"
    unfolding issue_run_same_year by (simp add: last_issued_def)
  also have "\<dots> = map int [1..<Suc n]"
    by (simp add: map_Suc_upt [symmetric] del: upt_Suc)
  finally show "map numeroSequentiel (fst (issue_run (replicate n y) Map.empty)) = map int [1..<Suc n]" .
next
  fix s assume h: "tbl ''FACTURE_SEQ'' = Some s \<and> annee s \<noteq> y"
  then have li: "last_issued y tbl = 0"
    by (simp add: last_issued_def)
  show "numeroSequentiel (fst (getNextFactureNumber y tbl)) = 1"
    unfolding getNext_numero li by simp
  have "map numeroSequentiel (fst (issue_run (replicate n y) tbl)) =
      map (\<lambda>k. 1 + int k) [0..<n]"
    unfolding issue_run_same_year li by simp
  also have "\<dots> = map int [1..<Suc n]"
    by (simp add: map_Suc_upt [symmetric] del: upt_Suc)
  finally show "map numeroSequentiel (fst (issue_run (replicate n y) tbl)) = map int [1..<Suc n]" .
  show "prefixe (fst (getNextFactureNumber y tbl)) = ''FA-'' @ int_toString y @ ''-''"
    by (rule getNext_prefixe)
  show "snd (getNextFactureNumber y tbl) ''FACTURE_SEQ'' = Some \<lparr>dernierNumero = 1, annee = y\<rparr>"
    using sequence_tx_row [of y tbl] li
    by (cases "sequence_tx y tbl") (simp add: getNextFactureNumber_def Let_def)
qed

theorem C1_numbering_witness:
  "map numeroSequentiel (fst (issue_run (replicate 3 2026) Map.empty)) = [1, 2, 3]
   \<and> map numeroSequentiel (fst (issue_run (replicate 3 2026)
            [''FACTURE_SEQ'' \<mapsto> \<lparr>dernierNumero = 41, annee = 2025\<rparr>])) = [1, 2, 3]
   \<and> fst (getNextFactureNumber 2026
            [''FACTURE_SEQ'' \<mapsto> \<lparr>dernierNumero = 41, annee = 2025\<rparr>]) =
       \<lparr>numeroSequentiel = 1, prefixe = ''FA-2026-'', numeroComplet = ''FA-2026-0001''\<rparr>
   \<and> snd (getNextFactureNumber 2026
            [''FACTURE_SEQ'' \<mapsto> \<lparr>dernierNumero = 41, annee = 2025\<rparr>]) ''FACTURE_SEQ'' =
       Some \<lparr>dernierNumero = 1, annee = 2026\<rparr>"
proof -
  let ?tbl = "[''FACTURE_SEQ'' \<mapsto> \<lparr>dernierNumero = 41, annee = 2025\<rparr>]"
  have hyp: "?tbl ''FACTURE_SEQ'' = Some \<lparr>dernierNumero = 41, annee = 2025\<rparr>
      \<and> annee \<lparr>dernierNumero = 41, annee = 2025\<rparr> \<noteq> 2026"
    by simp
  have upt3: "map int [1..<Suc 3] = [1, 2, 3]"
    by (simp add: upt_rec)
  have digits: "int_toString 2026 = ''2026''" "int_toString 1 = ''1''"
    by code_simp+
  have complet: "numeroComplet (fst (getNextFactureNumber 2026 ?tbl)) = ''FA-2026-0001''"
    by (simp add: getNextFactureNumber_def sequence_tx_def Let_def padStart_def digits
        numeral_3_eq_3)
  from C1_numbering [of 3 2026 ?tbl] hyp upt3 digits complet show ?thesis
    by (cases "fst (getNextFactureNumber 2026 ?tbl)") simp
qed

subsection \<open>Properties of the amounts\<close>








text \<open>
  C4. \<^verbatim>\<open>calculerMontants(100, 20)\<close> is \<open>{montantHT: 100, tauxTVA: 20, montantTVA: 20,
  montantTTC: 120}\<close>, and \<^verbatim>\<open>calculerMontants(33.33, 20)\<close> has \<open>montantTVA = 6.67\<close> and
  \<open>montantTTC = 40.00\<close>.
\<close>

theorem C4_amounts_examples:
  "calculerMontants (Fin 100) (Fin 20) =
     \<lparr>montants.montantHT = Fin 100, tauxTVA = Fin 20, montantTVA = Fin 20,
      montants.montantTTC = Fin 120\<rparr>
   \<and> montantTVA (calculerMontants (Fin (3333 / 100)) (Fin 20)) = Fin (667 / 100)
   \<and> montants.montantTTC (calculerMontants (Fin (3333 / 100)) (Fin 20)) = Fin 40"
  by code_simp

subsection \<open>The create action\<close>

lemma POST_create:
  "get_prop body ''action'' = Inr (Str ''create'') \<Longrightarrow>
   POST p (Json (Some body)) w =
     (case create_action p body w of
        (Inl e, w') \<Rightarrow> ((500, Error_only (Exception e)), w')
      | (Inr response, w') \<Rightarrow> (response, w'))"
  by (simp add: POST_def handler_def)

lemma create_invalid:
  "\<not> truthy (opt_prop body ''numDossier'') \<or> \<not> truthy (opt_prop body ''montantHT'')
     \<or> \<not> truthy (opt_prop body ''prestation'') \<Longrightarrow>
   create_action p body w = (Inr (400, Error_only Donnees_incompletes), w)"
  by (auto simp add: create_action_def Let_def)

lemma create_unknown:
  "truthy (opt_prop body ''montantHT'') \<Longrightarrow> truthy (opt_prop body ''prestation'') \<Longrightarrow>
   opt_prop body ''numDossier'' = Str s \<Longrightarrow> s \<noteq> [] \<Longrightarrow>
   clients w (trim (toUpperCase s)) = None \<Longrightarrow>
   create_action p body w = (Inr (404, Error_only (Dossier_non_trouve (Str s))), w)"
  by (simp add: create_action_def Let_def)

lemma create_known:
  assumes "truthy (opt_prop body ''montantHT'')" "truthy (opt_prop body ''prestation'')"
    and "opt_prop body ''numDossier'' = Str s" "s \<noteq> []"
    and "clients w (trim (toUpperCase s)) = Some c"
    and "to_Number (Number_toString p) (StringToNumber p) (opt_prop body ''montantHT'') = Inr ht"
  shows "\<exists>f. fst (create_action p body w) = Inr (200, Created f)
         \<and> factures (snd (create_action p body w)) = factures w @ [f]
         \<and> sequences (snd (create_action p body w)) =
             snd (getNextFactureNumber (getFullYear p) (sequences w))
         \<and> client f = c \<and> clientId f = id' c
         \<and> numero f = fst (getNextFactureNumber (getFullYear p) (sequences w))
         \<and> montants f = calculerMontants ht (Fin 20)
         \<and> facture.prestation f = opt_prop body ''prestation''
         \<and> (stripePaymentLink f \<noteq> None \<or> stripePaymentId f \<noteq> None \<longrightarrow>
              (\<exists>args. lien_result.success (creerLienPaiement p args)))"
  using assms
  by (cases "getNextFactureNumber (getFullYear p) (sequences w)")
     (auto simp add: create_action_def Let_def)

lemma POST_create_fst:
  "get_prop body ''action'' = Inr (Str ''create'') \<Longrightarrow>
   fst (create_action p body w) = Inr r \<Longrightarrow>
   fst (POST p (Json (Some body)) w) = r
   \<and> snd (POST p (Json (Some body)) w) = snd (create_action p body w)"
  by (cases "create_action p body w") (simp add: POST_create)

text \<open>
  A create request that is not answered 200 leaves the state as it was, whatever the
  reason: the validation, the unknown client, or an exception before the number is
  allocated (a \<^verbatim>\<open>numDossier\<close> that is no string has no \<^verbatim>\<open>toUpperCase\<close>).
\<close>

lemma create_rejected_keeps_state:
  assumes "get_prop body ''action'' = Inr (Str ''create'')"
    and "fst (fst (POST p (Json (Some body)) w)) \<noteq> 200"
  shows "snd (POST p (Json (Some body)) w) = w"
  using assms(2)
  by (cases "getNextFactureNumber (getFullYear p) (sequences w)")
     (auto simp add: POST_create [OF assms(1)] create_action_def Let_def
      split: js_value.splits option.splits sum.splits if_splits)

text \<open>
  C2. A create request in which \<^verbatim>\<open>numDossier\<close>, \<^verbatim>\<open>montantHT\<close> or \<^verbatim>\<open>prestation\<close> is missing
  or falsy (a \<^verbatim>\<open>montantHT\<close> of 0 included) is answered 400 with the validation error; a
  create request that passes validation and whose normalized \<^verbatim>\<open>numDossier\<close> matches no
  client is answered 404. In both cases the state is returned as it was: no number is
  issued and no invoice row is written.
\<close>

theorem C2_create_rejected:
  assumes "get_prop body ''action'' = Inr (Str ''create'')"
  shows "(\<not> truthy (opt_prop body ''numDossier'') \<or> \<not> truthy (opt_prop body ''montantHT'')
            \<or> \<not> truthy (opt_prop body ''prestation'')
          \<longrightarrow> POST p (Json (Some body)) w = ((400, Error_only Donnees_incompletes), w))
       \<and> (opt_prop body ''montantHT'' = Num (Fin 0)
          \<longrightarrow> POST p (Json (Some body)) w = ((400, Error_only Donnees_incompletes), w))
       \<and> (truthy (opt_prop body ''montantHT'') \<and> truthy (opt_prop body ''prestation'')
            \<and> opt_prop body ''numDossier'' = Str s \<and> s \<noteq> []
            \<and> clients w (trim (toUpperCase s)) = None
          \<longrightarrow> POST p (Json (Some body)) w = ((404, Error_only (Dossier_non_trouve (Str s))), w))"
proof (intro conjI impI)
  assume "\<not> truthy (opt_prop body ''numDossier'') \<or> \<not> truthy (opt_prop body ''montantHT'')
      \<or> \<not> truthy (opt_prop body ''prestation'')"
  then show "POST p (Json (Some body)) w = ((400, Error_only Donnees_incompletes), w)"
    by (simp add: POST_create [OF assms] create_invalid)
next
  assume "opt_prop body ''montantHT'' = Num (Fin 0)"
  then have "\<not> truthy (opt_prop body ''montantHT'')"
    by simp
  then show "POST p (Json (Some body)) w = ((400, Error_only Donnees_incompletes), w)"
    by (simp add: POST_create [OF assms] create_invalid)
next
  assume "truthy (opt_prop body ''montantHT'') \<and> truthy (opt_prop body ''prestation'')
      \<and> opt_prop body ''numDossier'' = Str s \<and> s \<noteq> []
      \<and> clients w (trim (toUpperCase s)) = None"
  then show "POST p (Json (Some body)) w = ((404, Error_only (Dossier_non_trouve (Str s))), w)"
    by (simp add: POST_create [OF assms] create_unknown)
qed

lemma normalise_examples:
  "trim (toUpperCase '' am0028 '') = ''AM0028''"
  "trim (toUpperCase ''ZZ9'') = ''ZZ9''"
  "trim (toUpperCase ''AM0028'') = ''AM0028''"
  by code_simp+

theorem C2_create_rejected_witness:
  "POST example_platform
     (Json (Some (create_body (Str ''AM0028'') (Num (Fin 0)) (Str ''Bilan'')))) example_world =
     ((400, Error_only Donnees_incompletes), example_world)
   \<and> POST example_platform
     (Json (Some (Obj [(''action'', Str ''create''), (''numDossier'', Str ''AM0028''),
                       (''montantHT'', Num (Fin 100))]))) example_world =
     ((400, Error_only Donnees_incompletes), example_world)
   \<and> POST example_platform
     (Json (Some (create_body (Str ''ZZ9'') (Num (Fin 100)) (Str ''Bilan'')))) example_world =
     ((404, Error_only (Dossier_non_trouve (Str ''ZZ9''))), example_world)"
proof -
  let ?zero = "create_body (Str ''AM0028'') (Num (Fin 0)) (Str ''Bilan'')"
  let ?absent = "Obj [(''action'', Str ''create''), (''numDossier'', Str ''AM0028''),
      (''montantHT'', Num (Fin 100))]"
  let ?unknown = "create_body (Str ''ZZ9'') (Num (Fin 100)) (Str ''Bilan'')"
  have zero: "get_prop ?zero ''action'' = Inr (Str ''create'')"
    "opt_prop ?zero ''montantHT'' = Num (Fin 0)"
    by (simp_all add: create_body_def opt_prop_def)
  have absent: "get_prop ?absent ''action'' = Inr (Str ''create'')"
    "\<not> truthy (opt_prop ?absent ''prestation'')"
    by (simp_all add: opt_prop_def)
  have unknown: "get_prop ?unknown ''action'' = Inr (Str ''create'')"
    "truthy (opt_prop ?unknown ''montantHT'')" "truthy (opt_prop ?unknown ''prestation'')"
    "opt_prop ?unknown ''numDossier'' = Str ''ZZ9''"
    "clients example_world (trim (toUpperCase ''ZZ9'')) = None"
    by (simp_all add: create_body_def opt_prop_def example_world_def normalise_examples)
  from C2_create_rejected [OF zero(1), of example_platform example_world "''ZZ9''"] zero(2)
  have one: "POST example_platform (Json (Some ?zero)) example_world =
      ((400, Error_only Donnees_incompletes), example_world)"
    by blast
  from C2_create_rejected [OF absent(1), of example_platform example_world "''ZZ9''"] absent(2)
  have two: "POST example_platform (Json (Some ?absent)) example_world =
      ((400, Error_only Donnees_incompletes), example_world)"
    by blast
  from C2_create_rejected [OF unknown(1), of example_platform example_world "''ZZ9''"]
    unknown(2-5)
  have three: "POST example_platform (Json (Some ?unknown)) example_world =
      ((404, Error_only (Dossier_non_trouve (Str ''ZZ9''))), example_world)"
    by simp
  from one two three show ?thesis by simp
qed

text \<open>
  C5. A create request for a known client, when the payment-link adapter returns a
  failure result: the request is answered 200 with the created invoice, the invoice is
  the row appended to the table, and its \<^verbatim>\<open>stripePaymentLink\<close> and \<^verbatim>\<open>stripePaymentId\<close>
  are null.
\<close>

theorem C5_payment_link_failure:
  assumes "get_prop body ''action'' = Inr (Str ''create'')"
    and "truthy (opt_prop body ''montantHT'')" "truthy (opt_prop body ''prestation'')"
    and "opt_prop body ''numDossier'' = Str s" "s \<noteq> []"
    and "clients w (trim (toUpperCase s)) = Some c"
    and "to_Number (Number_toString p) (StringToNumber p) (opt_prop body ''montantHT'') = Inr ht"
    and "\<forall>args. \<not> lien_result.success (creerLienPaiement p args)"
  shows "\<exists>f. fst (POST p (Json (Some body)) w) = (200, Created f)
           \<and> factures (snd (POST p (Json (Some body)) w)) = factures w @ [f]
           \<and> client f = c
           \<and> stripePaymentLink f = None \<and> stripePaymentId f = None"
proof -
  from create_known [OF assms(2-7)] obtain f where
    f: "fst (create_action p body w) = Inr (200, Created f)"
    "factures (snd (create_action p body w)) = factures w @ [f]"
    "client f = c"
    "stripePaymentLink f \<noteq> None \<or> stripePaymentId f \<noteq> None \<longrightarrow>
       (\<exists>args. lien_result.success (creerLienPaiement p args))"
    by blast
  from f(4) assms(8) have "stripePaymentLink f = None \<and> stripePaymentId f = None"
    by blast
  with POST_create_fst [OF assms(1) f(1)] f(2,3) show ?thesis
    by auto
qed

theorem C5_payment_link_failure_witness:
  "fst (POST example_platform
          (Json (Some (create_body (Str ''AM0028'') (Num (Fin 100)) (Str ''Bilan''))))
          example_world) =
     (200, Created
        \<lparr>numero = \<lparr>numeroSequentiel = 1, prefixe = ''FA-2026-'',
                   numeroComplet = ''FA-2026-0001''\<rparr>,
         facture.prestation = Str ''Bilan'',
         montants = \<lparr>montants.montantHT = Fin 100, tauxTVA = Fin 20, montantTVA = Fin 20,
                     montants.montantTTC = Fin 120\<rparr>,
         stripePaymentLink = None, stripePaymentId = None,
         clientId = ''c1'', client = dupont\<rparr>)
   \<and> length (factures (snd (POST example_platform
          (Json (Some (create_body (Str ''AM0028'') (Num (Fin 100)) (Str ''Bilan''))))
          example_world))) = 1"
proof -
  let ?b = "create_body (Str ''AM0028'') (Num (Fin 100)) (Str ''Bilan'')"
  have hyps: "get_prop ?b ''action'' = Inr (Str ''create'')"
    "truthy (opt_prop ?b ''montantHT'')" "truthy (opt_prop ?b ''prestation'')"
    "opt_prop ?b ''numDossier'' = Str ''AM0028''" "''AM0028'' \<noteq> []"
    "clients example_world (trim (toUpperCase ''AM0028'')) = Some dupont"
    "to_Number (Number_toString example_platform) (StringToNumber example_platform)
       (opt_prop ?b ''montantHT'') = Inr (Fin 100)"
    "\<forall>args. \<not> lien_result.success (creerLienPaiement example_platform args)"
    by (simp_all add: create_body_def opt_prop_def example_world_def example_platform_def
        normalise_examples)
  from C5_payment_link_failure [OF hyps] obtain f where
    f: "fst (POST example_platform (Json (Some ?b)) example_world) = (200, Created f)"
    "factures (snd (POST example_platform (Json (Some ?b)) example_world)) =
       factures example_world @ [f]"
    by blast
  have "fst (POST example_platform (Json (Some ?b)) example_world) =
     (200, Created
        \<lparr>numero = \<lparr>numeroSequentiel = 1, prefixe = ''FA-2026-'',
                   numeroComplet = ''FA-2026-0001''\<rparr>,
         facture.prestation = Str ''Bilan'',
         montants = \<lparr>montants.montantHT = Fin 100, tauxTVA = Fin 20, montantTVA = Fin 20,
                     montants.montantTTC = Fin 120\<rparr>,
         stripePaymentLink = None, stripePaymentId = None,
         clientId = ''c1'', client = dupont\<rparr>)"
    by code_simp
  with f show ?thesis
    by (simp add: example_world_def)
qed

subsection \<open>The extraction\<close>

lemma extraire_model_reply:
  "model_reply p tr sent = Some content \<Longrightarrow>
   fst (extraireInfosFacture p tr sent) =
     (case parse_reply p content of
        Inl e \<Rightarrow> extraction_failed (Erreur e) None
      | Inr result \<Rightarrow> result)"
  by (auto simp add: model_reply_def extraireInfosFacture_def fetch_def
      split: option.splits sum.splits fetch_outcome.splits if_splits)

lemma extraire_no_match:
  "model_reply p tr sent = Some (Str reply) \<Longrightarrow> json_match reply = None \<Longrightarrow>
   fst (extraireInfosFacture p tr sent) =
     extraction_failed Format_de_reponse_invalide (Some reply)"
  by (simp add: extraire_model_reply parse_reply_def)

lemma extraire_parse_failure:
  "model_reply p tr sent = Some (Str reply) \<Longrightarrow> json_match reply = Some m \<Longrightarrow>
   JSON_parse p m = None \<Longrightarrow>
   fst (extraireInfosFacture p tr sent) = extraction_failed (Erreur Json_syntax_error) None"
  by (simp add: extraire_model_reply parse_reply_def)





lemma example_replies:
  \<open>model_reply example_platform (Str ''euh'') [] = Some (Str ''Voici: {}'')\<close>
  \<open>model_reply example_platform (Str ''flou'') [] = Some (Str ''{a preciser}'')\<close>
  \<open>model_reply example_platform (Str ''quoi'') [] = Some (Str ''Je ne sais pas'')\<close>
  \<open>json_match ''Voici: {}'' = Some ''{}''\<close>
  \<open>json_match ''{a preciser}'' = Some ''{a preciser}''\<close>
  \<open>json_match ''Je ne sais pas'' = None\<close>
  by code_simp+


text \<open>
  C6 at a reply whose braces hold no JSON: the match is found, \<^verbatim>\<open>JSON.parse\<close> throws,
  and the result of the \<^verbatim>\<open>catch\<close> has no \<^verbatim>\<open>rawResponse\<close>; a reply without braces keeps
  its text.
\<close>

theorem C6_parse_failure_loses_raw_text:
  "model_reply example_platform (Str ''flou'') [] = Some (Str ''{a preciser}'')
   \<and> json_match ''{a preciser}'' = Some ''{a preciser}''
   \<and> JSON_parse example_platform ''{a preciser}'' = None
   \<and> fst (extraireInfosFacture example_platform (Str ''flou'') []) =
       \<lparr>ExtractionResult.numDossier = [], ExtractionResult.montantHT = Fin 0,
        ExtractionResult.prestation = [], ExtractionResult.success = False,
        ExtractionResult.error = Some (Erreur Json_syntax_error), rawResponse = None\<rparr>
   \<and> fst (extraireInfosFacture example_platform (Str ''quoi'') []) =
       \<lparr>ExtractionResult.numDossier = [], ExtractionResult.montantHT = Fin 0,
        ExtractionResult.prestation = [], ExtractionResult.success = False,
        ExtractionResult.error = Some Format_de_reponse_invalide,
        rawResponse = Some ''Je ne sais pas''\<rparr>"
proof -
  have rejected: "JSON_parse example_platform ''{a preciser}'' = None"
    by code_simp
  from extraire_parse_failure [OF example_replies(2) example_replies(5) rejected]
    extraire_no_match [OF example_replies(3) example_replies(6)]
    example_replies(2,5) rejected
  show ?thesis
    by (simp add: extraction_failed_def)
qed

subsection \<open>The extract action\<close>

lemma POST_extract:
  "get_prop body ''action'' = Inr (Str ''extract'') \<Longrightarrow>
   POST p (Json (Some body)) w =
     (case extract_action p body w of
        (Inl e, w') \<Rightarrow> ((500, Error_only (Exception e)), w')
      | (Inr response, w') \<Rightarrow> (response, w'))"
  by (simp add: POST_def handler_def)

lemma parse_reply_success_error:
  "parse_reply p content = Inr e \<Longrightarrow> ExtractionResult.success e \<Longrightarrow>
   ExtractionResult.error e = None"
  by (auto simp add: parse_reply_def extraction_failed_def
      split: js_value.splits option.splits sum.splits)

lemma extraire_success_error:
  "ExtractionResult.success (fst (extraireInfosFacture p tr sent)) \<Longrightarrow>
   ExtractionResult.error (fst (extraireInfosFacture p tr sent)) = None"
  by (auto simp add: extraireInfosFacture_def extraction_failed_def fetch_def
      parse_reply_success_error
      split: option.splits sum.splits fetch_outcome.splits if_splits)

lemma extract_action_success:
  assumes "truthy (opt_prop body ''transcription'')"
    and "ExtractionResult.success
           (fst (extraireInfosFacture p (opt_prop body ''transcription'') (fetched w)))"
  shows "fst (extract_action p body w) =
           Inr (200,
             let e = fst (extraireInfosFacture p (opt_prop body ''transcription'') (fetched w))
             in if ExtractionResult.numDossier e \<noteq> []
                then Extracted True e (clients w (ExtractionResult.numDossier e) \<noteq> None)
                       (clients w (ExtractionResult.numDossier e)) None
                else Extracted True e False None None)"
  using assms extraire_success_error [OF assms(2)]
  by (cases "extraireInfosFacture p (opt_prop body ''transcription'') (fetched w)")
     (simp add: extract_action_def Let_def)

text \<open>
  C8, as the source has it. An extract request whose extraction succeeds with a
  non-empty \<^verbatim>\<open>numDossier\<close> is answered with \<open>success: true\<close>, the extraction, whether the
  directory has a client of that \<^verbatim>\<open>numDossier\<close>, and that client or null. When the
  extraction succeeds with an empty \<^verbatim>\<open>numDossier\<close> the directory is not read: the answer
  is \<open>success: true\<close> with \<open>clientTrouve: false\<close> and \<open>client: null\<close>.
\<close>

theorem C8_extract_lookup:
  assumes "get_prop body ''action'' = Inr (Str ''extract'')"
    and "truthy (opt_prop body ''transcription'')"
    and "fst (extraireInfosFacture p (opt_prop body ''transcription'') (fetched w)) = e"
    and "ExtractionResult.success e"
  shows "(ExtractionResult.numDossier e \<noteq> [] \<longrightarrow>
            fst (POST p (Json (Some body)) w) =
              (200, Extracted True e (clients w (ExtractionResult.numDossier e) \<noteq> None)
                      (clients w (ExtractionResult.numDossier e)) None))
       \<and> (ExtractionResult.numDossier e = [] \<longrightarrow>
            fst (POST p (Json (Some body)) w) = (200, Extracted True e False None None))"
proof -
  from assms(3,4) have ok: "ExtractionResult.success
      (fst (extraireInfosFacture p (opt_prop body ''transcription'') (fetched w)))"
    by simp
  have "fst (POST p (Json (Some body)) w) =
      (case fst (extract_action p body w) of
         Inl x \<Rightarrow> (500, Error_only (Exception x)) | Inr response \<Rightarrow> response)"
    by (cases "extract_action p body w")
       (simp add: POST_extract [OF assms(1)] split: sum.splits)
  then show ?thesis
    by (simp add: extract_action_success [OF assms(2) ok] assms(3) Let_def)
qed

theorem C8_extract_lookup_witness:
  "fst (POST example_platform (Json (Some (extract_body (Str ''facture'')))) example_world) =
     (200, Extracted True
        \<lparr>ExtractionResult.numDossier = ''AM0028'', ExtractionResult.montantHT = Fin 500,
         ExtractionResult.prestation = ''Bilan annuel'', ExtractionResult.success = True,
         ExtractionResult.error = None, rawResponse = Some fields_reply\<rparr>
        True (Some dupont) None)
   \<and> fst (POST example_platform (Json (Some (extract_body (Str ''euh'')))) example_world) =
     (200, Extracted True
        \<lparr>ExtractionResult.numDossier = [], ExtractionResult.montantHT = Fin 0,
         ExtractionResult.prestation = [], ExtractionResult.success = True,
         ExtractionResult.error = None, rawResponse = Some ''Voici: {}''\<rparr>
        False None None)"
proof -
  let ?full = "\<lparr>ExtractionResult.numDossier = ''AM0028'', ExtractionResult.montantHT = Fin 500,
      ExtractionResult.prestation = ''Bilan annuel'', ExtractionResult.success = True,
      ExtractionResult.error = None, rawResponse = Some fields_reply\<rparr>"
  let ?empty = "\<lparr>ExtractionResult.numDossier = [], ExtractionResult.montantHT = Fin 0,
      ExtractionResult.prestation = [], ExtractionResult.success = True,
      ExtractionResult.error = None, rawResponse = Some ''Voici: {}''\<rparr>"
  have action: "get_prop (extract_body tr) ''action'' = Inr (Str ''extract'')"
    "opt_prop (extract_body tr) ''transcription'' = tr" for tr
    by (simp_all add: extract_body_def opt_prop_def)
  have spoken: "truthy (opt_prop (extract_body (Str ''facture'')) ''transcription'')"
    "truthy (opt_prop (extract_body (Str ''euh'')) ''transcription'')"
    by (simp_all add: action)
  have full: "fst (extraireInfosFacture example_platform
      (opt_prop (extract_body (Str ''facture'')) ''transcription'') (fetched example_world)) = ?full"
    by code_simp
  have empty: "fst (extraireInfosFacture example_platform
      (opt_prop (extract_body (Str ''euh'')) ''transcription'') (fetched example_world)) = ?empty"
    by code_simp
  have ok: "ExtractionResult.success ?full" "ExtractionResult.success ?empty"
    by simp_all
  have found: "clients example_world ''AM0028'' = Some dupont"
    by (simp add: example_world_def)
  from C8_extract_lookup [OF action(1) spoken(1) full ok(1)]
    C8_extract_lookup [OF action(1) spoken(2) empty ok(2)] found
  show ?thesis
    by simp
qed

text \<open>
  The specification's sentence C8 fails where the extraction succeeds with an empty
  \<^verbatim>\<open>numDossier\<close> and the directory has a client stored under the empty \<^verbatim>\<open>numDossier\<close>: the
  extracted reference has a match, and the answer reports none.
\<close>

theorem C8_counterexample:
  "ExtractionResult.success (fst (extraireInfosFacture example_platform (Str ''euh'') []))
   \<and> clients blank_world
        (ExtractionResult.numDossier
           (fst (extraireInfosFacture example_platform (Str ''euh'') []))) = Some sans_dossier
   \<and> fst (POST example_platform (Json (Some (extract_body (Str ''euh'')))) blank_world) =
       (200, Extracted True
          (fst (extraireInfosFacture example_platform (Str ''euh'') [])) False None None)"
proof -
  have e: "fst (extraireInfosFacture example_platform (Str ''euh'') []) =
      \<lparr>ExtractionResult.numDossier = [], ExtractionResult.montantHT = Fin 0,
       ExtractionResult.prestation = [], ExtractionResult.success = True,
       ExtractionResult.error = None, rawResponse = Some ''Voici: {}''\<rparr>"
    by code_simp
  have r: "fst (POST example_platform (Json (Some (extract_body (Str ''euh'')))) blank_world) =
      (200, Extracted True
         \<lparr>ExtractionResult.numDossier = [], ExtractionResult.montantHT = Fin 0,
          ExtractionResult.prestation = [], ExtractionResult.success = True,
          ExtractionResult.error = None, rawResponse = Some ''Voici: {}''\<rparr> False None None)"
    by code_simp
  show ?thesis
    unfolding e r by (simp add: blank_world_def)
qed

subsection \<open>Normalization of \<^verbatim>\<open>numDossier\<close>\<close>















subsection \<open>Calls of the provider\<close>












end
